theory Spec2Isabelle
  imports Main
begin

section \<open>The serial executor of ploomber (executors/Serial.py)\<close>

text \<open>
  \<^verbatim>\<open>Serial.__call__\<close> builds the tasks of a DAG one at a time, in the order
  \<^verbatim>\<open>dag.values()\<close> yields them. It skips tasks whose status is Skipped or
  Aborted, catches every exception of a build, collects the tracebacks in a
  \<^verbatim>\<open>MessageCollector\<close> and raises one \<^verbatim>\<open>DAGBuildError\<close> after the
  loop when the collector is not empty. The embedding passes the state explicitly and keeps
  a log of the effectful calls (logging handler, progress bar, pool, build, status
  assignment, client close), in the order in which the source performs them.
\<close>

subsection \<open>Data\<close>

text \<open>
  Modelled from the spec: \<^verbatim>\<open>ploomber.constants.TaskStatus\<close> is imported by
  Serial.py and is not among the sources; the spec lists its values as Waiting, Skipped,
  Aborted, Executed, Errored.
\<close>

datatype TaskStatus = Waiting | Skipped | Aborted | Executed | Errored

text \<open>
  A task, as far as Serial.py reads it: \<^verbatim>\<open>t.name\<close>, \<^verbatim>\<open>repr(t)\<close>,
  \<^verbatim>\<open>t.exec_status\<close>, \<^verbatim>\<open>callable(t.source.value)\<close> and
  \<^verbatim>\<open>t.build(**task_kwargs)\<close>. A build returns a report (\<open>Inr\<close>) or raises an
  exception (\<open>Inl\<close>) of the class \<^verbatim>\<open>Exception\<close>, the class that the handler of
  line 77 catches; the exception is represented by the text that
  \<^verbatim>\<open>traceback.format_exc()\<close> gives for it in that handler.

  Modelled from the spec: the class Task, with the setter of its property
  \<^verbatim>\<open>exec_status\<close>, is not among the sources. In the spec one status transition
  can fail, the assignment of Executed after a successful build; the assignment of Errored
  is a plain write. \<open>on_set_executed\<close> is \<open>None\<close> when the assignment of Executed
  succeeds, and \<open>Some (tr, st)\<close> when it raises an exception with traceback \<open>tr\<close>,
  leaving the task with the status \<open>st\<close> (what the setter did before it raised is
  not known to the executor).
\<close>

record ('k, 'r) Task =
  name :: string
  repr :: string
  exec_status :: TaskStatus
  source_callable :: bool
  build :: "'k \<Rightarrow> string + 'r"
  on_set_executed :: "(string \<times> TaskStatus) option"

definition set_Errored :: "('k, 'r) Task \<Rightarrow> ('k, 'r) Task" where
  "set_Errored t = t\<lparr>exec_status := Errored\<rparr>"

definition set_Executed :: "('k, 'r) Task \<Rightarrow> ('k, 'r) Task \<times> string option" where
  "set_Executed t =
     (case on_set_executed t of
        None \<Rightarrow> (t\<lparr>exec_status := Executed\<rparr>, None)
      | Some (tr, st) \<Rightarrow> (t\<lparr>exec_status := st\<rparr>, Some tr))"

text \<open>
  The DAG, as far as Serial.py reads it: \<^verbatim>\<open>dag.name\<close>, the tasks in the order of
  \<^verbatim>\<open>dag.values()\<close> (\<^verbatim>\<open>len(dag)\<close> is their number) and the dictionary
  \<^verbatim>\<open>dag.clients\<close>. A client is an object: the dictionary maps each key to the
  address of its client, and two keys may hold the same client.
\<close>

record ('k, 'r) DAG =
  dag_name :: string
  tasks :: "('k, 'r) Task list"
  clients :: "(string \<times> nat) list"

text \<open>The executor's attributes, set by \<^verbatim>\<open>__init__\<close> (lines 40-45).\<close>

record Serial =
  logging_directory :: "string option"
  logging_level :: int
  build_in_subprocess :: bool

text \<open>
  \<^verbatim>\<open>if self.logging_directory:\<close> tests the truth value of the attribute:
  \<^verbatim>\<open>None\<close> and the empty string are false.
\<close>

definition truthy :: "string option \<Rightarrow> bool" where
  "truthy d = (case d of None \<Rightarrow> False | Some s \<Rightarrow> s \<noteq> [])"

text \<open>
  Modelled from the spec: \<^verbatim>\<open>ploomber.MessageCollector\<close> is not among the
  sources. In the spec it is a run-scoped accumulator of failure records (task identity,
  trace): \<^verbatim>\<open>append(message, task_str)\<close> adds a record, its truth value is its
  non-emptiness, and rendering it gives one block per record, each with the identity of the
  task and its full trace, concatenated in the order of the failures. The spec fixes no
  layout of a block; here it is the identity on a line, then the trace.
\<close>

type_synonym MessageCollector = "(string \<times> string) list"

definition append_message :: "MessageCollector \<Rightarrow> string \<Rightarrow> string \<Rightarrow> MessageCollector" where
  "append_message mc message task_str = mc @ [(task_str, message)]"

definition render_block :: "string \<times> string \<Rightarrow> string" where
  "render_block m = fst m @ [CHR 0x0A] @ snd m @ [CHR 0x0A]"

definition MessageCollector_str :: "MessageCollector \<Rightarrow> string" where
  "MessageCollector_str mc = concat (map render_block mc)"

datatype error = DAGBuildError string

definition DAGBuildError_header :: string where
  "DAGBuildError_header =
     ''DAG build failed, the following tasks crashed (corresponding downstream tasks aborted execution):''
     @ [CHR 0x0A]"

subsection \<open>Effects\<close>

text \<open>
  The calls the executor makes on its collaborators. \<open>HandlerAdd\<close> and
  \<open>HandlerRemove\<close> are \<^verbatim>\<open>logger_handler.add()\<close> and
  \<^verbatim>\<open>logger_handler.remove()\<close>; \<open>Tqdm\<close> and \<open>SetDescription\<close> the progress bar;
  \<open>PoolCreate\<close>, \<open>ApplyAsync\<close>, \<open>PoolGet\<close>, \<open>PoolClose\<close> and \<open>PoolJoin\<close> the
  five calls of \<^verbatim>\<open>execute_in_subprocess\<close>; \<open>Build\<close> a call of
  \<^verbatim>\<open>t.build\<close> in the executor's process; \<open>SetStatus\<close> an assignment to
  \<^verbatim>\<open>t.exec_status\<close>; \<open>ClientClose\<close> a call of \<^verbatim>\<open>client.close()\<close>;
  \<open>RaiseDAGBuildError\<close> the \<^verbatim>\<open>raise\<close> of line 94.
\<close>

datatype event =
    HandlerAdd string
  | HandlerRemove
  | Tqdm nat
  | SetDescription string
  | PoolCreate
  | ApplyAsync string
  | PoolGet
  | PoolClose
  | PoolJoin
  | Build string
  | SetStatus string TaskStatus
  | ClientClose nat
  | RaiseDAGBuildError

record 'r loop_state =
  exceptions :: MessageCollector
  task_reports :: "'r list"
  events :: "event list"

definition emit :: "event list \<Rightarrow> 'r loop_state \<Rightarrow> 'r loop_state" where
  "emit evs s = s\<lparr>events := events s @ evs\<rparr>"

definition exceptions_append :: "string \<Rightarrow> string \<Rightarrow> 'r loop_state \<Rightarrow> 'r loop_state" where
  "exceptions_append message task_str s =
     s\<lparr>exceptions := append_message (exceptions s) message task_str\<rparr>"

definition task_reports_append :: "'r \<Rightarrow> 'r loop_state \<Rightarrow> 'r loop_state" where
  "task_reports_append report s = s\<lparr>task_reports := task_reports s @ [report]\<rparr>"

subsection \<open>execute\_in\_subprocess (lines 123-136)\<close>

text \<open>
  A pool of one process is created, the build is submitted, and
  \<^verbatim>\<open>res.get()\<close> blocks until the result arrives; the comment of the source quotes
  the documentation: the result is returned, and an exception of the remote call is raised
  again by \<^verbatim>\<open>get()\<close>. \<^verbatim>\<open>p.close()\<close> and \<^verbatim>\<open>p.join()\<close> follow
  \<^verbatim>\<open>res.get()\<close> without a \<^verbatim>\<open>finally\<close>: they run when it returns.
\<close>

definition execute_in_subprocess ::
  "('k, 'r) Task \<Rightarrow> 'k \<Rightarrow> event list \<times> (string + 'r)" where
  "execute_in_subprocess task build_kwargs =
     (case build task build_kwargs of
        Inl tr \<Rightarrow> ([PoolCreate, ApplyAsync (name task), PoolGet], Inl tr)
      | Inr res \<Rightarrow>
          ([PoolCreate, ApplyAsync (name task), PoolGet, PoolClose, PoolJoin], Inr res))"

subsection \<open>The loop of Serial.\_\_call\_\_ (lines 64-91)\<close>

definition description :: "('k, 'r) Task \<Rightarrow> string" where
  "description t = ''Building task '' @ [CHR 0x22] @ name t @ [CHR 0x22]"

definition build_path ::
  "Serial \<Rightarrow> 'k \<Rightarrow> ('k, 'r) Task \<Rightarrow> event list \<times> (string + 'r)" where
  "build_path self task_kwargs t =
     (if source_callable t \<and> build_in_subprocess self
      then execute_in_subprocess t task_kwargs
      else ([Build (name t)], build t task_kwargs))"

definition loop_body ::
  "Serial \<Rightarrow> bool \<Rightarrow> 'k \<Rightarrow> ('k, 'r) Task \<Rightarrow> 'r loop_state
     \<Rightarrow> ('k, 'r) Task \<times> 'r loop_state" where
  "loop_body self show_progress task_kwargs t s =
     (if exec_status t \<in> {Skipped, Aborted} then (t, s)
      else
        let s1 = (if show_progress then emit [SetDescription (description t)] s else s);
            (evs, outcome) = build_path self task_kwargs t;
            s2 = emit evs s1
        in (case outcome of
              Inl tr \<Rightarrow>
                (set_Errored t,
                 exceptions_append tr (repr t) (emit [SetStatus (name t) Errored] s2))
            | Inr report \<Rightarrow>
                (case set_Executed t of
                   (t', None) \<Rightarrow>
                     (t', task_reports_append report (emit [SetStatus (name t) Executed] s2))
                 | (t', Some tr) \<Rightarrow>
                     (t', task_reports_append report
                            (exceptions_append tr (repr t)
                               (emit [SetStatus (name t) Executed] s2))))))"

fun for_loop ::
  "Serial \<Rightarrow> bool \<Rightarrow> 'k \<Rightarrow> ('k, 'r) Task list \<Rightarrow> 'r loop_state
     \<Rightarrow> ('k, 'r) Task list \<times> 'r loop_state" where
  "for_loop self show_progress task_kwargs [] s = ([], s)"
| "for_loop self show_progress task_kwargs (t # ts) s =
     (let (t', s') = loop_body self show_progress task_kwargs t s;
          (ts', s'') = for_loop self show_progress task_kwargs ts s'
      in (t' # ts', s''))"

subsection \<open>Serial.\_\_call\_\_ (lines 47-109)\<close>

text \<open>
  A run gives the value returned or the exception raised (\<open>result\<close>), the tasks as the
  loop left them (\<open>tasks_after\<close>) and the state at the end of the call (\<open>final\<close>):
  the collector, the reports appended and the log of all calls.
  \<^verbatim>\<open>super().__call__(dag)\<close> is the call of the base class Executor, which is not
  among the sources; it is taken to have no effect.
\<close>

record ('k, 'r) run =
  result :: "error + 'r list"
  tasks_after :: "('k, 'r) Task list"
  final :: "'r loop_state"

definition Serial_call ::
  "Serial \<Rightarrow> ('k, 'r) DAG \<Rightarrow> bool \<Rightarrow> 'k \<Rightarrow> ('k, 'r) run" where
  "Serial_call self dag show_progress task_kwargs =
     (let s0 = \<lparr>exceptions = [], task_reports = [],
                events = (if truthy (logging_directory self)
                          then [HandlerAdd (dag_name dag)] else [])
                         @ (if show_progress then [Tqdm (length (tasks dag))] else [])\<rparr>;
          (ts, s) = for_loop self show_progress task_kwargs (tasks dag) s0
      in if exceptions s \<noteq> []
         then \<lparr>result = Inl (DAGBuildError
                               (DAGBuildError_header @ MessageCollector_str (exceptions s))),
               tasks_after = ts,
               final = emit [RaiseDAGBuildError] s\<rparr>
         else \<lparr>result = Inr (task_reports s),
               tasks_after = ts,
               final = emit ((if truthy (logging_directory self) then [HandlerRemove] else [])
                             @ (if \<not> build_in_subprocess self
                                then map ClientClose (map snd (clients dag)) else [])) s\<rparr>)"

subsection \<open>What the spec says of one task\<close>

text \<open>
  The spec describes the loop task by task (section 4.1, steps 1 to 4): which failure record
  a task leaves, which report, and in which status it ends. The definitions of this
  subsection follow its words, and \<open>task_events\<close> lists the calls of one iteration;
  the lemmas below compare them with the loop of the source.
\<close>

definition skipped_or_aborted :: "('k, 'r) Task \<Rightarrow> bool" where
  "skipped_or_aborted t = (exec_status t = Skipped \<or> exec_status t = Aborted)"

definition failure_records :: "'k \<Rightarrow> ('k, 'r) Task \<Rightarrow> (string \<times> string) list" where
  "failure_records task_kwargs t =
     (if skipped_or_aborted t then []
      else case build t task_kwargs of
             Inl tr \<Rightarrow> [(repr t, tr)]
           | Inr report \<Rightarrow>
               (case on_set_executed t of None \<Rightarrow> [] | Some (tr, st) \<Rightarrow> [(repr t, tr)]))"

definition reports :: "'k \<Rightarrow> ('k, 'r) Task \<Rightarrow> 'r list" where
  "reports task_kwargs t =
     (if skipped_or_aborted t then []
      else case build t task_kwargs of Inl tr \<Rightarrow> [] | Inr report \<Rightarrow> [report])"

definition status_written :: "'k \<Rightarrow> ('k, 'r) Task \<Rightarrow> TaskStatus" where
  "status_written task_kwargs t =
     (case build t task_kwargs of Inl tr \<Rightarrow> Errored | Inr report \<Rightarrow> Executed)"

definition task_after :: "'k \<Rightarrow> ('k, 'r) Task \<Rightarrow> ('k, 'r) Task" where
  "task_after task_kwargs t =
     (if skipped_or_aborted t then t
      else case build t task_kwargs of
             Inl tr \<Rightarrow> t\<lparr>exec_status := Errored\<rparr>
           | Inr report \<Rightarrow>
               (case on_set_executed t of
                  None \<Rightarrow> t\<lparr>exec_status := Executed\<rparr>
                | Some (tr, st) \<Rightarrow> t\<lparr>exec_status := st\<rparr>))"

definition task_events :: "Serial \<Rightarrow> bool \<Rightarrow> 'k \<Rightarrow> ('k, 'r) Task \<Rightarrow> event list" where
  "task_events self show_progress task_kwargs t =
     (if skipped_or_aborted t then []
      else (if show_progress then [SetDescription (description t)] else [])
           @ fst (build_path self task_kwargs t)
           @ [SetStatus (name t) (status_written task_kwargs t)])"

subsection \<open>Reading the log\<close>

text \<open>
  The tasks whose build was called (in the executor's process or in a pool), the status
  assignments, the clients closed, each in the order of the log; and the events of the
  progress bar.
\<close>

fun build_call :: "event \<Rightarrow> string list" where
  "build_call (Build n) = [n]"
| "build_call (ApplyAsync n) = [n]"
| "build_call _ = []"

definition build_calls :: "event list \<Rightarrow> string list" where
  "build_calls evs = concat (map build_call evs)"



fun client_close :: "event \<Rightarrow> nat list" where
  "client_close (ClientClose c) = [c]"
| "client_close _ = []"

definition clients_closed :: "event list \<Rightarrow> nat list" where
  "clients_closed evs = concat (map client_close evs)"

fun is_display :: "event \<Rightarrow> bool" where
  "is_display (Tqdm n) = True"
| "is_display (SetDescription d) = True"
| "is_display _ = False"

fun is_isolated :: "event \<Rightarrow> bool" where
  "is_isolated PoolCreate = True"
| "is_isolated (ApplyAsync n) = True"
| "is_isolated PoolGet = True"
| "is_isolated PoolClose = True"
| "is_isolated PoolJoin = True"
| "is_isolated _ = False"

text \<open>
  What \<^verbatim>\<open>__call__\<close> logs before the loop (lines 50-62) and after it on the path
  that returns (lines 100-107).
\<close>

definition prologue :: "Serial \<Rightarrow> ('k, 'r) DAG \<Rightarrow> bool \<Rightarrow> event list" where
  "prologue self dag sp =
     (if truthy (logging_directory self) then [HandlerAdd (dag_name dag)] else [])
     @ (if sp then [Tqdm (length (tasks dag))] else [])"

definition epilogue :: "Serial \<Rightarrow> ('k, 'r) DAG \<Rightarrow> event list" where
  "epilogue self dag =
     (if truthy (logging_directory self) then [HandlerRemove] else [])
     @ (if \<not> build_in_subprocess self then map ClientClose (map snd (clients dag)) else [])"

subsection \<open>Scenarios\<close>

text \<open>
  The DAGs of the scenarios of the spec (section 8), with builds that take no parameters
  and report a number, and two executors: one that builds in its own process and one that
  builds callables in a pool and logs to a directory.
\<close>

definition ok_task :: "string \<Rightarrow> nat \<Rightarrow> (unit, nat) Task" where
  "ok_task n r =
     \<lparr>name = n, repr = ''Task('' @ n @ '')'', exec_status = Waiting, source_callable = True,
      build = (\<lambda>kw. Inr r), on_set_executed = None\<rparr>"

definition failing_task :: "string \<Rightarrow> string \<Rightarrow> (unit, nat) Task" where
  "failing_task n tr =
     \<lparr>name = n, repr = ''Task('' @ n @ '')'', exec_status = Waiting, source_callable = True,
      build = (\<lambda>kw. Inl tr), on_set_executed = None\<rparr>"

definition hook_task :: "string \<Rightarrow> nat \<Rightarrow> string \<Rightarrow> (unit, nat) Task" where
  "hook_task n r tr = (ok_task n r)\<lparr>on_set_executed := Some (tr, Executed)\<rparr>"

definition in_process :: Serial where
  "in_process = \<lparr>logging_directory = None, logging_level = 20, build_in_subprocess = False\<rparr>"

definition isolated :: Serial where
  "isolated =
     \<lparr>logging_directory = Some ''logs'', logging_level = 20, build_in_subprocess = True\<rparr>"

definition scenario_A :: "(unit, nat) DAG" where
  "scenario_A =
     \<lparr>dag_name = ''A'',
      tasks = [ok_task ''t1'' 1, ok_task ''t2'' 2, ok_task ''t3'' 3],
      clients = [(''db'', 0)]\<rparr>"

definition scenario_B :: "(unit, nat) DAG" where
  "scenario_B =
     \<lparr>dag_name = ''B'',
      tasks = [ok_task ''t1'' 1, failing_task ''t2'' ''boom'', ok_task ''t3'' 3],
      clients = [(''db'', 0)]\<rparr>"

definition scenario_C :: "(unit, nat) DAG" where
  "scenario_C =
     \<lparr>dag_name = ''C'',
      tasks = [ok_task ''t1'' 1, (ok_task ''t2'' 2)\<lparr>exec_status := Aborted\<rparr>, ok_task ''t3'' 3],
      clients = [(''db'', 0)]\<rparr>"

definition scenario_hook :: "(unit, nat) DAG" where
  "scenario_hook =
     \<lparr>dag_name = ''H'',
      tasks = [hook_task ''t1'' 1 ''hook failed'', ok_task ''t2'' 2],
      clients = []\<rparr>"

definition scenario_shared_client :: "(unit, nat) DAG" where
  "scenario_shared_client =
     \<lparr>dag_name = ''S'', tasks = [ok_task ''t1'' 1], clients = [(''a'', 0), (''b'', 0)]\<rparr>"

definition scenario_rerun :: "(unit, nat) DAG" where
  "scenario_rerun =
     \<lparr>dag_name = ''R'', tasks = [(ok_task ''t1'' 1)\<lparr>exec_status := Errored\<rparr>], clients = []\<rparr>"

section \<open>The loop, task by task\<close>

lemma truthy_simps: "truthy None = False" "truthy (Some s) = (s \<noteq> [])"
  by (simp_all add: truthy_def)

text \<open>
  One iteration of the loop does to the task, the collector, the reports and the log what
  the spec says of one task; so the loop is the composition of these effects over the tasks,
  in their order.
\<close>

lemma loop_body_eq:
  "loop_body self sp kw t s =
     (task_after kw t,
      s\<lparr>exceptions := exceptions s @ failure_records kw t,
        task_reports := task_reports s @ reports kw t,
        events := events s @ task_events self sp kw t\<rparr>)"
  by (auto simp: loop_body_def task_after_def failure_records_def reports_def task_events_def
      skipped_or_aborted_def status_written_def build_path_def execute_in_subprocess_def
      set_Errored_def set_Executed_def emit_def exceptions_append_def task_reports_append_def
      append_message_def Let_def
      split: sum.splits option.splits prod.splits)

lemma for_loop_eq:
  "for_loop self sp kw ts s =
     (map (task_after kw) ts,
      s\<lparr>exceptions := exceptions s @ concat (map (failure_records kw) ts),
        task_reports := task_reports s @ concat (map (reports kw) ts),
        events := events s @ concat (map (task_events self sp kw) ts)\<rparr>)"
  by (induction ts arbitrary: s) (simp_all add: loop_body_eq)

subsection \<open>The call, read off the tasks\<close>

lemma Serial_call_exceptions:
  "exceptions (final (Serial_call self dag sp kw)) = concat (map (failure_records kw) (tasks dag))"
  by (simp add: Serial_call_def for_loop_eq emit_def Let_def)

lemma Serial_call_task_reports:
  "task_reports (final (Serial_call self dag sp kw)) = concat (map (reports kw) (tasks dag))"
  by (simp add: Serial_call_def for_loop_eq emit_def Let_def)

lemma Serial_call_tasks_after:
  "tasks_after (Serial_call self dag sp kw) = map (task_after kw) (tasks dag)"
  by (simp add: Serial_call_def for_loop_eq emit_def Let_def)

lemma Serial_call_result:
  "result (Serial_call self dag sp kw) =
     (if concat (map (failure_records kw) (tasks dag)) \<noteq> []
      then Inl (DAGBuildError (DAGBuildError_header
                  @ MessageCollector_str (concat (map (failure_records kw) (tasks dag)))))
      else Inr (concat (map (reports kw) (tasks dag))))"
  by (simp add: Serial_call_def for_loop_eq emit_def Let_def)

lemma Serial_call_events:
  "events (final (Serial_call self dag sp kw)) =
     prologue self dag sp @ concat (map (task_events self sp kw) (tasks dag))
     @ (if concat (map (failure_records kw) (tasks dag)) \<noteq> []
        then [RaiseDAGBuildError] else epilogue self dag)"
  by (simp add: Serial_call_def for_loop_eq emit_def Let_def prologue_def epilogue_def)

subsection \<open>The log of the loop\<close>

lemma concat_map_if:
  "concat (map (\<lambda>t. if P t then [] else [f t]) ts) = map f (filter (\<lambda>t. \<not> P t) ts)"
  by (induction ts) simp_all

lemma build_calls_append: "build_calls (xs @ ys) = build_calls xs @ build_calls ys"
  by (simp add: build_calls_def)

lemma build_calls_concat: "build_calls (concat xss) = concat (map build_calls xss)"
  by (induction xss) (simp_all add: build_calls_append, simp add: build_calls_def)



lemma clients_closed_append: "clients_closed (xs @ ys) = clients_closed xs @ clients_closed ys"
  by (simp add: clients_closed_def)

lemma clients_closed_concat: "clients_closed (concat xss) = concat (map clients_closed xss)"
  by (induction xss) (simp_all add: clients_closed_append, simp add: clients_closed_def)

lemma clients_closed_map_ClientClose: "clients_closed (map ClientClose cs) = cs"
  by (induction cs) (simp_all add: clients_closed_def)

lemma build_calls_task_events:
  "build_calls (task_events self sp kw t) = (if skipped_or_aborted t then [] else [name t])"
  by (simp add: task_events_def build_path_def execute_in_subprocess_def build_calls_def
      split: sum.splits)


lemma clients_closed_task_events: "clients_closed (task_events self sp kw t) = []"
  by (simp add: task_events_def build_path_def execute_in_subprocess_def clients_closed_def
      split: sum.splits)

lemma task_events_no_raise: "RaiseDAGBuildError \<notin> set (task_events self sp kw t)"
  by (simp add: task_events_def build_path_def execute_in_subprocess_def split: sum.splits)

lemma task_events_no_remove: "HandlerRemove \<notin> set (task_events self sp kw t)"
  by (simp add: task_events_def build_path_def execute_in_subprocess_def split: sum.splits)

lemma task_events_display:
  "filter (\<lambda>e. \<not> is_display e) (task_events self True kw t) = task_events self False kw t"
  by (simp add: task_events_def build_path_def execute_in_subprocess_def split: sum.splits)

lemma build_calls_prologue: "build_calls (prologue self dag sp) = []"
  by (simp add: prologue_def build_calls_def)

lemma build_calls_epilogue: "build_calls (epilogue self dag) = []"
  by (auto simp: epilogue_def build_calls_def)



lemma clients_closed_prologue: "clients_closed (prologue self dag sp) = []"
  by (simp add: prologue_def clients_closed_def)

lemma clients_closed_epilogue:
  "clients_closed (epilogue self dag) =
     (if build_in_subprocess self then [] else map snd (clients dag))"
  using clients_closed_map_ClientClose [of "map snd (clients dag)"]
  by (simp add: epilogue_def clients_closed_append) (simp add: clients_closed_def)

lemma build_calls_loop:
  "build_calls (concat (map (task_events self sp kw) ts)) =
     map name (filter (\<lambda>t. \<not> skipped_or_aborted t) ts)"
  by (simp add: build_calls_concat comp_def build_calls_task_events concat_map_if)


lemma clients_closed_loop: "clients_closed (concat (map (task_events self sp kw) ts)) = []"
  by (simp add: clients_closed_concat comp_def clients_closed_task_events)

lemma loop_no_raise: "RaiseDAGBuildError \<notin> set (concat (map (task_events self sp kw) ts))"
  by (simp add: task_events_no_raise)

lemma loop_no_remove: "HandlerRemove \<notin> set (concat (map (task_events self sp kw) ts))"
  by (simp add: task_events_no_remove)

lemma loop_display:
  "filter (\<lambda>e. \<not> is_display e) (concat (map (task_events self True kw) ts)) =
     concat (map (task_events self False kw) ts)"
  by (induction ts) (simp_all add: task_events_display)

lemma count_list_notin: "x \<notin> set xs \<Longrightarrow> count_list xs x = 0"
  by (induction xs) auto

subsection \<open>The call and its log\<close>

lemmas scenario_defs =
  ok_task_def failing_task_def hook_task_def in_process_def isolated_def
  scenario_A_def scenario_B_def scenario_C_def scenario_hook_def
  scenario_shared_client_def scenario_rerun_def

lemmas task_defs =
  skipped_or_aborted_def failure_records_def reports_def status_written_def task_after_def
  task_events_def build_path_def execute_in_subprocess_def description_def

lemma failure_records_length: "length (failure_records kw t) \<le> 1"
  by (simp add: failure_records_def split: sum.splits option.splits)

lemma Serial_call_build_calls:
  "build_calls (events (final (Serial_call self dag sp kw))) =
     map name (filter (\<lambda>t. \<not> skipped_or_aborted t) (tasks dag))"
  by (simp add: Serial_call_events build_calls_append build_calls_prologue
      build_calls_epilogue build_calls_loop build_calls_def [of "[RaiseDAGBuildError]"])


lemma Serial_call_clients_closed:
  "clients_closed (events (final (Serial_call self dag sp kw))) =
     (if concat (map (failure_records kw) (tasks dag)) \<noteq> [] \<or> build_in_subprocess self
      then [] else map snd (clients dag))"
  by (simp add: Serial_call_events clients_closed_append clients_closed_prologue
      clients_closed_epilogue clients_closed_loop clients_closed_def [of "[RaiseDAGBuildError]"])

section \<open>The claims\<close>

text \<open>
  C1, as stated, fails in one place: the message of the exception is not the rendering of
  the collector. Lines 94-98 put a fixed line in front of it. In scenario B (three tasks,
  the second fails) the collector is not empty, and the message differs from its rendering.
\<close>

theorem C1_message_has_header:
  "exceptions (final (Serial_call in_process scenario_B False ())) \<noteq> []
   \<and> result (Serial_call in_process scenario_B False ()) \<noteq>
       Inl (DAGBuildError (MessageCollector_str
              (exceptions (final (Serial_call in_process scenario_B False ())))))"
  by (simp add: Serial_call_exceptions Serial_call_result DAGBuildError_header_def
      scenario_defs task_defs)

text \<open>
  C1, amended: the call raises the DAGBuildError exactly when the collector holds a record
  at the end of the loop, and then returns no reports; the message is the fixed header of
  lines 94-97 followed by the rendering of the collector, one block per record in the order
  of the failures; the records are those of the failing tasks in the order of the tasks, at
  most one per task, each with \<^verbatim>\<open>repr(t)\<close> and the trace. With an empty collector
  the call returns the reports.
\<close>

theorem C1_aggregated_failure:
  "(let R = Serial_call self dag show_progress task_kwargs; fs = exceptions (final R)
    in fs = concat (map (failure_records task_kwargs) (tasks dag))
       \<and> (\<forall>t. length (failure_records task_kwargs t) \<le> 1)
       \<and> (isl (result R) \<longleftrightarrow> fs \<noteq> [])
       \<and> (fs \<noteq> [] \<longrightarrow>
            result R = Inl (DAGBuildError
                              (DAGBuildError_header @ concat (map render_block fs))))
       \<and> (fs = [] \<longrightarrow> result R = Inr (task_reports (final R))))"
  using failure_records_length [of task_kwargs]
  by (auto simp: Let_def Serial_call_exceptions Serial_call_result Serial_call_task_reports
      MessageCollector_str_def)

text \<open>
  Scenario B raises with the record of its second task; scenario A returns three reports.
\<close>

theorem C1_aggregated_failure_witness:
  "exceptions (final (Serial_call in_process scenario_B False ())) = [(''Task(t2)'', ''boom'')]
   \<and> result (Serial_call in_process scenario_B False ()) =
       Inl (DAGBuildError (DAGBuildError_header @ ''Task(t2)'' @ [CHR 0x0A] @ ''boom'' @ [CHR 0x0A]))
   \<and> result (Serial_call in_process scenario_A False ()) = Inr [1, 2, 3]"
proof -
  note B = C1_aggregated_failure [of in_process scenario_B False "()", unfolded Let_def]
  note A = C1_aggregated_failure [of in_process scenario_A False "()", unfolded Let_def]
  show ?thesis
    using B [THEN conjunct1] B [THEN conjunct2, THEN conjunct2, THEN conjunct2, THEN conjunct1]
      A [THEN conjunct1] A [THEN conjunct2, THEN conjunct2, THEN conjunct2, THEN conjunct2]
    by (simp add: Serial_call_task_reports render_block_def scenario_defs task_defs)
qed

text \<open>
  C2: whatever fails, the builds called during a run are those of the tasks whose status at
  entry is neither Skipped nor Aborted, each once and in the order supplied. The exception
  is raised at most once, exactly on the runs that fail, and it is the last event of the
  log: every build has been called before it.
\<close>

theorem C2_every_task_attempted:
  "(let R = Serial_call self dag show_progress task_kwargs; evs = events (final R)
    in build_calls evs = map name (filter (\<lambda>t. \<not> skipped_or_aborted t) (tasks dag))
       \<and> count_list evs RaiseDAGBuildError = (if isl (result R) then 1 else 0)
       \<and> (isl (result R) \<longrightarrow>
            last evs = RaiseDAGBuildError
            \<and> build_calls (butlast evs) =
                map name (filter (\<lambda>t. \<not> skipped_or_aborted t) (tasks dag))))"
proof -
  let ?ts = "tasks dag"
  let ?loop = "concat (map (task_events self show_progress task_kwargs) ?ts)"
  have raise0: "count_list (prologue self dag show_progress) RaiseDAGBuildError = 0"
    "count_list ?loop RaiseDAGBuildError = 0"
    "count_list (epilogue self dag) RaiseDAGBuildError = 0"
    by (auto intro!: count_list_notin simp: prologue_def epilogue_def task_events_no_raise)
  show ?thesis
    by (simp add: Let_def Serial_call_events Serial_call_result build_calls_append
        build_calls_prologue build_calls_epilogue build_calls_loop raise0 butlast_append
        build_calls_def [of "[RaiseDAGBuildError]"] build_calls_def [of "[]"])
qed

text \<open>
  In scenario B the second task fails, the third is built all the same, and the exception
  comes last.
\<close>

theorem C2_every_task_attempted_witness:
  "build_calls (events (final (Serial_call in_process scenario_B False ()))) = [''t1'', ''t2'', ''t3'']
   \<and> last (events (final (Serial_call in_process scenario_B False ()))) = RaiseDAGBuildError"
  using C2_every_task_attempted [of in_process scenario_B False "()"]
  by (simp add: Let_def Serial_call_result scenario_defs task_defs)

text \<open>
  C3, as stated, fails in one place: \<^verbatim>\<open>close()\<close> is called once for every entry of
  \<^verbatim>\<open>dag.clients\<close> (lines 106-107), so a client that the dictionary holds under two
  keys is closed twice.
\<close>

theorem C3_shared_client_closed_twice:
  "clients_closed (events (final (Serial_call in_process scenario_shared_client False ()))) = [0, 0]
   \<and> \<not> count_list (clients_closed
          (events (final (Serial_call in_process scenario_shared_client False ())))) 0 \<le> 1"
  by (simp add: Serial_call_clients_closed scenario_defs task_defs)

text \<open>
  C3, amended: the clients are closed once per entry of \<^verbatim>\<open>dag.clients\<close>, in its
  order, when the run raises no DAGBuildError and \<^verbatim>\<open>build_in_subprocess\<close> is off,
  and no client is closed otherwise; so each client is closed at most once when no client
  stands under two keys. The logging handler is removed exactly when the run raises no
  DAGBuildError and a logging directory is set: on a run that raises, neither happens.
\<close>

theorem C3_cleanup_only_on_success:
  "(let R = Serial_call self dag show_progress task_kwargs; evs = events (final R)
    in clients_closed evs =
         (if isl (result R) \<or> build_in_subprocess self then [] else map snd (clients dag))
       \<and> (HandlerRemove \<in> set evs \<longleftrightarrow> \<not> isl (result R) \<and> truthy (logging_directory self))
       \<and> (distinct (map snd (clients dag)) \<longrightarrow> distinct (clients_closed evs)))"
proof -
  have pro: "HandlerRemove \<notin> set (prologue self dag show_progress)"
    by (simp add: prologue_def)
  have epi: "HandlerRemove \<in> set (epilogue self dag) \<longleftrightarrow> truthy (logging_directory self)"
    by (auto simp: epilogue_def)
  show ?thesis
    by (simp add: Let_def Serial_call_events Serial_call_result clients_closed_append
        clients_closed_prologue clients_closed_loop clients_closed_epilogue
        pro epi task_events_no_remove clients_closed_def [of "[RaiseDAGBuildError]"])
qed

text \<open>
  Scenario A in the executor's process closes its client; scenario B (a failure) and the
  executor that builds in a pool close none; the handler is removed after scenario A and
  stays after scenario B.
\<close>

theorem C3_cleanup_only_on_success_witness:
  "clients_closed (events (final (Serial_call in_process scenario_A False ()))) = [0]
   \<and> clients_closed (events (final (Serial_call in_process scenario_B False ()))) = []
   \<and> clients_closed (events (final (Serial_call isolated scenario_A False ()))) = []
   \<and> HandlerRemove \<in> set (events (final (Serial_call isolated scenario_A False ())))
   \<and> HandlerRemove \<notin> set (events (final (Serial_call isolated scenario_B False ())))"
  using C3_cleanup_only_on_success [of in_process scenario_A False "()"]
    C3_cleanup_only_on_success [of in_process scenario_B False "()"]
    C3_cleanup_only_on_success [of isolated scenario_A False "()"]
    C3_cleanup_only_on_success [of isolated scenario_B False "()"]
  by (simp add: Let_def Serial_call_result truthy_def scenario_defs task_defs)

text \<open>
  A run without failures: every task that is built returns a report and its status can be
  set.
\<close>

lemma no_failure_records:
  "\<forall>t\<in>set ts. \<not> skipped_or_aborted t \<longrightarrow> \<not> isl (build t kw) \<and> on_set_executed t = None \<Longrightarrow>
   concat (map (failure_records kw) ts) = []"
  by (induction ts) (auto simp: failure_records_def split: sum.splits)

lemma no_failure_reports:
  "\<forall>t\<in>set ts. \<not> skipped_or_aborted t \<longrightarrow> \<not> isl (build t kw) \<Longrightarrow>
   concat (map (reports kw) ts) =
     map (\<lambda>t. projr (build t kw)) (filter (\<lambda>t. \<not> skipped_or_aborted t) ts)"
  by (induction ts) (auto simp: reports_def split: sum.splits)

text \<open>
  C4: when no task fails, the call returns the reports of the tasks whose status at entry
  is neither Skipped nor Aborted, in the order supplied, each the value of the build of its
  task called with the one \<^verbatim>\<open>task_kwargs\<close>; their number is the number of these tasks.
\<close>

theorem C4_reports_of_a_clean_run:
  "\<forall>t\<in>set (tasks dag). \<not> skipped_or_aborted t \<longrightarrow>
       \<not> isl (build t task_kwargs) \<and> on_set_executed t = None \<Longrightarrow>
   result (Serial_call self dag show_progress task_kwargs) =
     Inr (map (\<lambda>t. projr (build t task_kwargs))
            (filter (\<lambda>t. \<not> skipped_or_aborted t) (tasks dag)))
   \<and> length (task_reports (final (Serial_call self dag show_progress task_kwargs))) =
       length (filter (\<lambda>t. \<not> skipped_or_aborted t) (tasks dag))"
  by (simp add: Serial_call_result Serial_call_task_reports no_failure_records
      no_failure_reports)

text \<open>
  Scenario A returns the three reports; scenario C, whose second task is Aborted, returns
  the reports of the first and the third.
\<close>

theorem C4_reports_of_a_clean_run_witness:
  "result (Serial_call in_process scenario_A False ()) = Inr [1, 2, 3]
   \<and> result (Serial_call isolated scenario_C True ()) = Inr [1, 3]"
  using C4_reports_of_a_clean_run [of scenario_A "()" in_process False]
    C4_reports_of_a_clean_run [of scenario_C "()" isolated True]
  by (simp add: scenario_defs skipped_or_aborted_def)

text \<open>
  C5: an iteration on a task that is Skipped or Aborted changes neither the task nor the
  state (no build is logged, no record is collected, no report is appended); the loop over
  a list that holds such a task hands the state it reached before the task to the tasks
  after it, and returns the task as it was.
\<close>

theorem C5_skipped_or_aborted_untouched:
  "exec_status t = Skipped \<or> exec_status t = Aborted \<Longrightarrow>
   loop_body self show_progress task_kwargs t s = (t, s)
   \<and> for_loop self show_progress task_kwargs (pre @ t # post) s =
       (let (pre', s1) = for_loop self show_progress task_kwargs pre s;
            (post', s2) = for_loop self show_progress task_kwargs post s1
        in (pre' @ t # post', s2))"
  by (auto simp: loop_body_def for_loop_eq task_after_def failure_records_def reports_def
      task_events_def skipped_or_aborted_def)

text \<open>
  Scenario C: the Aborted task stays Aborted, and the log, the collector and the reports
  know the other two tasks only.
\<close>

theorem C5_skipped_or_aborted_untouched_witness:
  "for_loop in_process False () (tasks scenario_C) \<lparr>exceptions = [], task_reports = [], events = []\<rparr> =
     ([(ok_task ''t1'' 1)\<lparr>exec_status := Executed\<rparr>,
       (ok_task ''t2'' 2)\<lparr>exec_status := Aborted\<rparr>,
       (ok_task ''t3'' 3)\<lparr>exec_status := Executed\<rparr>],
      \<lparr>exceptions = [], task_reports = [1, 3],
        events = [Build ''t1'', SetStatus ''t1'' Executed, Build ''t3'', SetStatus ''t3'' Executed]\<rparr>)"
  using C5_skipped_or_aborted_untouched
    [of "(ok_task ''t2'' 2)\<lparr>exec_status := Aborted\<rparr>" in_process False "()"
        "\<lparr>exceptions = [], task_reports = [], events = []\<rparr>" "[ok_task ''t1'' 1]" "[ok_task ''t3'' 3]"]
  by (simp add: for_loop_eq scenario_defs task_defs)

text \<open>
  C6: when the build of a task succeeds and the assignment of Executed raises, the loop
  collects the record (\<^verbatim>\<open>repr(t)\<close>, trace), appends the report of the task, and goes
  on with the tasks after it from that state. The record is the one a failing build with
  the same trace would give, and the build of the task has been called once.
\<close>

theorem C6_status_transition_failure:
  "\<not> skipped_or_aborted t \<Longrightarrow> build t task_kwargs = Inr r \<Longrightarrow>
   on_set_executed t = Some (tr, st) \<Longrightarrow>
   for_loop self show_progress task_kwargs (pre @ t # post) s =
     (let (pre', s1) = for_loop self show_progress task_kwargs pre s;
          s2 = s1\<lparr>exceptions := exceptions s1 @ [(repr t, tr)],
                  task_reports := task_reports s1 @ [r],
                  events := events s1 @ task_events self show_progress task_kwargs t\<rparr>;
          (post', s3) = for_loop self show_progress task_kwargs post s2
      in (pre' @ t\<lparr>exec_status := st\<rparr> # post', s3))
   \<and> failure_records task_kwargs t = failure_records task_kwargs (t\<lparr>build := \<lambda>kw. Inl tr\<rparr>)
   \<and> build_calls (task_events self show_progress task_kwargs t) = [name t]"
  by (simp add: for_loop_eq task_after_def failure_records_def reports_def
      build_calls_task_events skipped_or_aborted_def)

text \<open>
  The first task of this DAG builds and fails in its status transition: its record is
  collected, its report kept, and the second task is built.
\<close>

theorem C6_status_transition_failure_witness:
  "for_loop in_process False () (tasks scenario_hook) \<lparr>exceptions = [], task_reports = [], events = []\<rparr> =
     ([(hook_task ''t1'' 1 ''hook failed'')\<lparr>exec_status := Executed\<rparr>,
       (ok_task ''t2'' 2)\<lparr>exec_status := Executed\<rparr>],
      \<lparr>exceptions = [(''Task(t1)'', ''hook failed'')], task_reports = [1, 2],
        events = [Build ''t1'', SetStatus ''t1'' Executed, Build ''t2'', SetStatus ''t2'' Executed]\<rparr>)"
  using C6_status_transition_failure
    [of "hook_task ''t1'' 1 ''hook failed''" "()" 1 "''hook failed''" Executed in_process False
        "[]" "[ok_task ''t2'' 2]" "\<lparr>exceptions = [], task_reports = [], events = []\<rparr>"]
  by (simp add: for_loop_eq scenario_defs task_defs)

text \<open>
  The pool is used exactly for a callable source under \<^verbatim>\<open>build_in_subprocess\<close>
  (lines 72-76). Each call of \<^verbatim>\<open>execute_in_subprocess\<close> creates one pool, first of
  all; the pool is closed exactly when the build returns.
\<close>

lemma build_path_policy:
  "filter is_isolated (fst (build_path self kw t)) \<noteq> [] \<longleftrightarrow>
     build_in_subprocess self \<and> source_callable t"
  by (auto simp: build_path_def execute_in_subprocess_def split: sum.splits)

lemma execute_in_subprocess_teardown:
  "PoolClose \<in> set (fst (execute_in_subprocess t kw)) \<longleftrightarrow> \<not> isl (build t kw)"
  by (simp add: execute_in_subprocess_def split: sum.splits)

lemma execute_in_subprocess_fresh_pool:
  "filter (\<lambda>e. e = PoolCreate) (fst (execute_in_subprocess t kw)) = [PoolCreate]
   \<and> hd (fst (execute_in_subprocess t kw)) = PoolCreate"
  by (simp add: execute_in_subprocess_def split: sum.splits)





text \<open>
  C8 does not hold of the code: when the build raises, \<^verbatim>\<open>res.get()\<close> raises, and
  \<^verbatim>\<open>p.close()\<close> and \<^verbatim>\<open>p.join()\<close> (lines 134-135) are not reached. The
  failing task of scenario B leaves its pool open, while the pools of the two tasks that
  succeed are closed and joined; each build has a pool of its own.
\<close>

theorem C8_pool_not_closed_when_build_raises:
  "execute_in_subprocess (failing_task ''t2'' ''boom'') () =
     ([PoolCreate, ApplyAsync ''t2'', PoolGet], Inl ''boom'')
   \<and> execute_in_subprocess (ok_task ''t1'' 1) () =
     ([PoolCreate, ApplyAsync ''t1'', PoolGet, PoolClose, PoolJoin], Inr 1)
   \<and> filter is_isolated (events (final (Serial_call isolated scenario_B False ()))) =
     [PoolCreate, ApplyAsync ''t1'', PoolGet, PoolClose, PoolJoin,
      PoolCreate, ApplyAsync ''t2'', PoolGet,
      PoolCreate, ApplyAsync ''t3'', PoolGet, PoolClose, PoolJoin]"
  by (simp add: Serial_call_events prologue_def epilogue_def truthy_def scenario_defs task_defs)





text \<open>
  C10: two runs that differ in \<^verbatim>\<open>show_progress\<close> only have the same result (the
  reports, or the exception with its message), leave the same tasks, collect the same
  records and reports, and close the same clients; the log of the run with the progress bar,
  without the events of the bar, is the log of the run without it.
\<close>

theorem C10_show_progress_is_display_only:
  "(let R1 = Serial_call self dag True task_kwargs; R2 = Serial_call self dag False task_kwargs
    in result R1 = result R2
       \<and> tasks_after R1 = tasks_after R2
       \<and> exceptions (final R1) = exceptions (final R2)
       \<and> task_reports (final R1) = task_reports (final R2)
       \<and> filter (\<lambda>e. \<not> is_display e) (events (final R1)) = events (final R2)
       \<and> clients_closed (events (final R1)) = clients_closed (events (final R2)))"
proof -
  have closed: "clients_closed (events (final (Serial_call self dag True task_kwargs))) =
      clients_closed (events (final (Serial_call self dag False task_kwargs)))"
    by (simp add: Serial_call_clients_closed)
  have shown: "filter (\<lambda>e. \<not> is_display e) (events (final (Serial_call self dag True task_kwargs))) =
      events (final (Serial_call self dag False task_kwargs))"
    by (simp add: Serial_call_events loop_display prologue_def epilogue_def)
  show ?thesis
    unfolding Let_def
    by (intro conjI closed shown)
      (simp_all add: Serial_call_result Serial_call_tasks_after Serial_call_exceptions
        Serial_call_task_reports)
qed

text \<open>
  Scenario B with the executor that builds in a pool: the same exception with or without
  the progress bar.
\<close>

theorem C10_show_progress_is_display_only_witness:
  "result (Serial_call isolated scenario_B True ()) = result (Serial_call isolated scenario_B False ())
   \<and> events (final (Serial_call isolated scenario_B False ())) =
       [HandlerAdd ''B'', PoolCreate, ApplyAsync ''t1'', PoolGet, PoolClose, PoolJoin,
        SetStatus ''t1'' Executed, PoolCreate, ApplyAsync ''t2'', PoolGet, SetStatus ''t2'' Errored,
        PoolCreate, ApplyAsync ''t3'', PoolGet, PoolClose, PoolJoin, SetStatus ''t3'' Executed,
        RaiseDAGBuildError]"
  using C10_show_progress_is_display_only [of isolated scenario_B "()"]
  by (simp add: Let_def Serial_call_events prologue_def epilogue_def truthy_def
      scenario_defs task_defs)

end
